theory Spec2Isabelle
  imports Main
begin

section \<open>Python strings: whitespace, \<open>split()\<close> and \<open>lower()\<close>\<close>

text \<open>
  A WSGI server hands header values to the application as text whose code points are all
  below 256, so the Authorization header and the token cut out of it are modelled as
  \<open>string\<close> (one \<open>char\<close> per code point). Strings that come out of a decoded JSON
  document (the claims of a token) are arbitrary Unicode text: a list of code points.
\<close>

type_synonym ustring = "nat list"

text \<open>A Unicode string written as a literal.\<close>

definition ustr :: "string \<Rightarrow> ustring" where
  "ustr s = map of_char s"

text \<open>The code points that \<open>str.split()\<close> and \<open>str.isspace()\<close> treat as whitespace.\<close>

definition unicode_isspace :: "nat \<Rightarrow> bool" where
  "unicode_isspace n \<longleftrightarrow>
     (9 \<le> n \<and> n \<le> 13) \<or> (28 \<le> n \<and> n \<le> 32) \<or> n = 133 \<or> n = 160 \<or> n = 5760 \<or>
     (8192 \<le> n \<and> n \<le> 8202) \<or> n = 8232 \<or> n = 8233 \<or> n = 8239 \<or> n = 8287 \<or> n = 12288"

definition isspace :: "char \<Rightarrow> bool" where
  "isspace c = unicode_isspace (of_char c)"

text \<open>
  \<open>s.split()\<close> with no argument: skip a run of whitespace, stop at the end of the string,
  otherwise cut the run of non-whitespace that follows and go on behind it. Empty parts
  never appear in the result.
\<close>

function split :: "('c \<Rightarrow> bool) \<Rightarrow> 'c list \<Rightarrow> 'c list list" where
  "split sp s =
     (case dropWhile sp s of
        [] \<Rightarrow> []
      | c # cs \<Rightarrow> (c # takeWhile (\<lambda>x. \<not> sp x) cs) # split sp (dropWhile (\<lambda>x. \<not> sp x) cs))"
  by pat_completeness auto
termination
proof (relation "measure (\<lambda>(sp, s). length s)")
  show "wf (measure (\<lambda>(sp, s). length s))" by simp
next
  fix sp :: "'c \<Rightarrow> bool" and s :: "'c list" and c :: 'c and cs :: "'c list"
  assume d: "dropWhile sp s = c # cs"
  have "length (dropWhile (\<lambda>x. \<not> sp x) cs) \<le> length cs"
    by (rule length_dropWhile_le)
  moreover have "length (c # cs) \<le> length s"
    using length_dropWhile_le [of sp s] d by simp
  ultimately show "((sp, dropWhile (\<lambda>x. \<not> sp x) cs), (sp, s)) \<in> measure (\<lambda>(sp, s). length s)"
    by simp
qed

declare split.simps [simp del]

text \<open>
  \<open>str.lower()\<close> on code points below 256: the ASCII capitals and the Latin-1 capitals
  (U+00C0 to U+00DE without the multiplication sign U+00D7) move up by 32, every other
  character is left alone.
\<close>

definition lower_char :: "char \<Rightarrow> char" where
  "lower_char c =
     (let n = (of_char c :: nat)
      in if (65 \<le> n \<and> n \<le> 90) \<or> (192 \<le> n \<and> n \<le> 214) \<or> (216 \<le> n \<and> n \<le> 222)
         then char_of (n + 32) else c)"

definition lower :: "string \<Rightarrow> string" where
  "lower s = map lower_char s"

section \<open>Exceptions and dictionaries\<close>

text \<open>
  \<open>AuthError(error, status_code)\<close> carries the dictionary \<open>error\<close> (its entries in the
  order the source writes them) and the HTTP status. The other constructors are the
  exceptions that the program's own operations and the JOSE library can raise;
  \<open>OtherException\<close> is any further subclass of \<open>Exception\<close>, \<open>NonException\<close> an
  exception outside \<open>Exception\<close> (\<open>KeyboardInterrupt\<close>, \<open>SystemExit\<close>).
\<close>

datatype exn =
    AuthError "(string \<times> string) list" int
  | IndexError
  | KeyError string
  | AttributeError
  | JWTError
  | ExpiredSignatureError
  | JWTClaimsError
  | OtherException string
  | NonException string

text \<open>A dictionary with string keys, as an association list; \<open>d[k]\<close> raises \<open>KeyError\<close>.\<close>

type_synonym 'v pydict = "(string \<times> 'v) list"

definition getitem :: "'v pydict \<Rightarrow> string \<Rightarrow> exn + 'v" where
  "getitem d k = (case map_of d k of None \<Rightarrow> Inl (KeyError k) | Some v \<Rightarrow> Inr v)"

section \<open>\<open>get_token_auth_header\<close>\<close>

text \<open>
  The argument is \<open>request.headers.get("Authorization", None)\<close>. \<open>not auth\<close> holds for
  \<open>None\<close> and for the empty string. \<open>parts[0]\<close> raises \<open>IndexError\<close> on an empty list.
\<close>

definition get_token_auth_header :: "string option \<Rightarrow> exn + string" where
  "get_token_auth_header auth =
     (if auth = None \<or> auth = Some [] then
        Inl (AuthError [(''code'', ''authorization_header_missing''),
                        (''description'', ''Authorization header is expected'')] 401)
      else
        let parts = split isspace (the auth) in
        if parts = [] then Inl IndexError
        else if lower (parts ! 0) \<noteq> ''bearer'' then
          Inl (AuthError [(''code'', ''invalid_header''),
                          (''description'', ''Authorization header must start with'' @ '' Bearer'')] 401)
        else if length parts = 1 then
          Inl (AuthError [(''code'', ''invalid_header''),
                          (''description'', ''Token not found'')] 401)
        else if length parts > 2 then
          Inl (AuthError [(''code'', ''invalid_header''),
                          (''description'', ''Authorization header must be'' @ '' Bearer token'')] 401)
        else Inr (parts ! 1))"

section \<open>The environment of one request\<close>

text \<open>
  What the program reads and calls that is not its own code: the request's header, the
  configuration constants \<open>AUTH0_DOMAIN\<close> and \<open>API_AUDIENCE\<close>, and the library calls.
  \<open>urlopen_json url\<close> is \<open>json.loads(urlopen(url).read())\<close>: a dictionary whose entry
  \<open>"keys"\<close> lists the published keys, each a dictionary. The values of a key's and of a
  token header's fields stay abstract (\<open>'v\<close>): the program copies them and compares two of
  them with \<open>==\<close>, nothing else. The three \<open>jwt_\<close> fields are the JOSE library's
  \<open>jwt.get_unverified_header\<close>, \<open>jwt.decode\<close> (token, key, algorithms, audience, issuer)
  and \<open>jwt.get_unverified_claims\<close>; each either raises or returns a dictionary.
  \<open>print\<close> is the builtin writing one line to standard output: it returns \<open>None\<close>
  when the line is written and the exception it raises otherwise (\<open>UnicodeEncodeError\<close>
  for text that the encoding of standard output cannot express).
\<close>

text \<open>
  A claim's value as the program looks at it: a string, a whole number (the expiry is one),
  or any other JSON value, of which only the truth value matters. Nothing but a string has a
  \<open>split\<close> method.
\<close>

datatype claim = Str ustring | Num int | NonStr bool

record 'v env =
  Authorization :: "string option"
  AUTH0_DOMAIN :: string
  API_AUDIENCE :: string
  urlopen_json :: "string \<Rightarrow> exn + ('v pydict list) pydict"
  jwt_get_unverified_header :: "string \<Rightarrow> exn + 'v pydict"
  jwt_decode :: "string \<Rightarrow> 'v pydict \<Rightarrow> string list \<Rightarrow> string \<Rightarrow> string \<Rightarrow> exn + claim pydict"
  jwt_get_unverified_claims :: "string \<Rightarrow> exn + claim pydict"
  print :: "ustring \<Rightarrow> exn option"

text \<open>The calls into the libraries that a run makes, with their arguments, in order.\<close>

datatype 'v call =
    Call_urlopen string
  | Call_get_unverified_header string
  | Call_decode string "'v pydict" "string list" string string

section \<open>\<open>requires_auth_token\<close>\<close>

definition ALGORITHMS :: "string list" where
  "ALGORITHMS = [''RS256'']"

text \<open>
  The loop over \<open>jwks["keys"]\<close>. It does not stop at a match: a later key with the same
  \<open>kid\<close> replaces an earlier one. Every subscript raises \<open>KeyError\<close> on a missing field;
  \<open>key["kid"]\<close> is evaluated before \<open>unverified_header["kid"]\<close>.
\<close>

fun key_loop :: "'v pydict list \<Rightarrow> 'v pydict \<Rightarrow> 'v pydict \<Rightarrow> exn + 'v pydict" where
  "key_loop [] unverified_header rsa_key = Inr rsa_key"
| "key_loop (key # keys) unverified_header rsa_key =
     (case getitem key ''kid'' of
        Inl ex \<Rightarrow> Inl ex
      | Inr kid \<Rightarrow>
        (case getitem unverified_header ''kid'' of
           Inl ex \<Rightarrow> Inl ex
         | Inr hkid \<Rightarrow>
           if kid = hkid then
             (case getitem key ''kty'' of
                Inl ex \<Rightarrow> Inl ex
              | Inr kty \<Rightarrow>
                (case getitem key ''use'' of
                   Inl ex \<Rightarrow> Inl ex
                 | Inr use \<Rightarrow>
                   (case getitem key ''n'' of
                      Inl ex \<Rightarrow> Inl ex
                    | Inr n \<Rightarrow>
                      (case getitem key ''e'' of
                         Inl ex \<Rightarrow> Inl ex
                       | Inr e \<Rightarrow>
                         key_loop keys unverified_header
                           [(''kty'', kty), (''kid'', kid), (''use'', use), (''n'', n), (''e'', e)]))))
           else key_loop keys unverified_header rsa_key))"

text \<open>
  The \<open>except\<close> clauses around \<open>jwt.decode\<close>, in the source's order. \<open>except Exception\<close>
  catches every exception but those outside \<open>Exception\<close>, which pass through.
\<close>

fun except_decode :: "exn \<Rightarrow> exn" where
  "except_decode ExpiredSignatureError =
     AuthError [(''code'', ''token_expired''), (''description'', ''token is expired'')] 401"
| "except_decode JWTClaimsError =
     AuthError [(''code'', ''invalid_claims''),
                (''description'', ''incorrect claims,'' @ ''please check the audience and issuer'')] 401"
| "except_decode (NonException name) = NonException name"
| "except_decode ex =
     AuthError [(''code'', ''invalid_header''),
                (''description'', ''Unable to parse authentication'' @ '' token.'')] 401"

text \<open>
  The function \<open>decorated\<close> that \<open>requires_auth_token(f)\<close> returns. The wrapped handler \<open>f\<close>
  is given the payload that the program stores as the request's \<open>current_user\<close>. The result
  is the list of library calls made and what the run raises or returns.
\<close>

definition decorated :: "'v env \<Rightarrow> (claim pydict \<Rightarrow> exn + 'r) \<Rightarrow> 'v call list \<times> (exn + 'r)" where
  "decorated env f =
     (case get_token_auth_header (Authorization env) of
        Inl ex \<Rightarrow> ([], Inl ex)
      | Inr token \<Rightarrow>
        (let url = ''https://'' @ AUTH0_DOMAIN env @ ''/.well-known/jwks.json'';
             calls1 = [Call_urlopen url];
             calls2 = calls1 @ [Call_get_unverified_header token]
         in (case urlopen_json env url of
               Inl ex \<Rightarrow> (calls1, Inl ex)
             | Inr jwks \<Rightarrow>
               (case jwt_get_unverified_header env token of
                  Inl ex \<Rightarrow> (calls2, Inl ex)
                | Inr unverified_header \<Rightarrow>
                  (case getitem jwks ''keys'' of
                     Inl ex \<Rightarrow> (calls2, Inl ex)
                   | Inr keys \<Rightarrow>
                     (case key_loop keys unverified_header [] of
                        Inl ex \<Rightarrow> (calls2, Inl ex)
                      | Inr rsa_key \<Rightarrow>
                        if rsa_key \<noteq> [] then
                          (let issuer = AUTH0_DOMAIN env @ ''/'';
                               calls3 = calls2 @
                                 [Call_decode token rsa_key ALGORITHMS (API_AUDIENCE env) issuer]
                           in (case jwt_decode env token rsa_key ALGORITHMS (API_AUDIENCE env) issuer of
                                 Inl ex \<Rightarrow> (calls3, Inl (except_decode ex))
                               | Inr payload \<Rightarrow> (calls3, f payload)))
                        else
                          (calls2,
                           Inl (AuthError [(''code'', ''invalid_header''),
                                           (''description'', ''Unable to find appropriate key'')]
                                  401))))))))"

section \<open>\<open>requires_scope\<close>\<close>




section \<open>The library's \<open>jwt.decode\<close>, as the specification describes it\<close>

text \<open>
  Modelled from the spec: the JOSE library's \<open>jwt.decode\<close>, which the repository calls and
  does not contain. Section 4.3 of the specification, steps 3 and 4: the token's signature is
  verified with the key under the allowed algorithms only; then the claims are validated, and
  the outcomes are, in the order the specification lists them, "expired" (the expiry claim
  is in the past), "audience/issuer mismatch" (the audience claim is not the configured
  audience, or the issuer claim is not the issuer passed), and "any other parse/verify
  failure". \<open>now\<close> is the clock in seconds; \<open>jws_verify\<close> is the signature verification,
  which yields the token's claims or raises.
\<close>

definition expired :: "int \<Rightarrow> claim pydict \<Rightarrow> bool" where
  "expired now claims = (case map_of claims ''exp'' of Some (Num exp) \<Rightarrow> exp < now | _ \<Rightarrow> False)"

definition claims_match :: "claim pydict \<Rightarrow> string \<Rightarrow> string \<Rightarrow> bool" where
  "claims_match claims audience issuer \<longleftrightarrow>
     map_of claims ''aud'' = Some (Str (ustr audience))
     \<and> map_of claims ''iss'' = Some (Str (ustr issuer))"

definition spec_jwt_decode ::
  "int \<Rightarrow> (string \<Rightarrow> 'v pydict \<Rightarrow> string list \<Rightarrow> exn + claim pydict)
     \<Rightarrow> string \<Rightarrow> 'v pydict \<Rightarrow> string list \<Rightarrow> string \<Rightarrow> string \<Rightarrow> exn + claim pydict" where
  "spec_jwt_decode now jws_verify token key algorithms audience issuer =
     (case jws_verify token key algorithms of
        Inl ex \<Rightarrow> Inl ex
      | Inr claims \<Rightarrow>
          if expired now claims then Inl ExpiredSignatureError
          else if \<not> claims_match claims audience issuer then Inl JWTClaimsError
          else Inr claims)"

section \<open>What the specification calls a whitespace-separated token\<close>


section \<open>A sample request\<close>

text \<open>
  One concrete environment, for running the definitions: a bearer token whose header names
  the key \<open>X\<close>, a key set that publishes \<open>X\<close>, and a library that accepts the token.
  Its standard output is encoded in UTF-8: printing fails with \<open>UnicodeEncodeError\<close> for
  a string that holds a surrogate code point, and for no other.
\<close>

definition example_env :: "string env" where
  "example_env =
     \<lparr> Authorization = Some ''Bearer abc.def.ghi'',
       AUTH0_DOMAIN = ''durian-inc.auth0.com'',
       API_AUDIENCE = ''https://mingle/api'',
       urlopen_json = (\<lambda>url. Inr [(''keys'',
          [[(''kty'', ''RSA''), (''kid'', ''X''), (''use'', ''sig''),
            (''n'', ''modulus''), (''e'', ''AQAB'')]])]),
       jwt_get_unverified_header =
         (\<lambda>token. Inr [(''alg'', ''RS256''), (''typ'', ''JWT''), (''kid'', ''X'')]),
       jwt_decode = (\<lambda>token key algorithms audience issuer.
          Inr [(''scope'', Str (ustr ''read:users write:users''))]),
       jwt_get_unverified_claims =
         (\<lambda>token. Inr [(''scope'', Str (ustr ''read:users write:users''))]),
       print = (\<lambda>line. if \<exists>c\<in>set line. 55296 \<le> c \<and> c \<le> 57343
                       then Some (OtherException ''UnicodeEncodeError'') else None) \<rparr>"

section \<open>Properties of \<open>split\<close>\<close>

lemma split_Nil: "split sp [] = []"
  by (simp add: split.simps)

lemma split_space: "sp c \<Longrightarrow> split sp (c # s) = split sp s"
  by (subst split.simps, subst (2) split.simps) simp

lemma split_word:
  "\<not> sp c \<Longrightarrow>
     split sp (c # s) = (c # takeWhile (\<lambda>x. \<not> sp x) s) # split sp (dropWhile (\<lambda>x. \<not> sp x) s)"
  by (subst split.simps) simp

lemma split_spaces: "\<forall>c\<in>set ws. sp c \<Longrightarrow> split sp (ws @ s) = split sp s"
  by (induction ws) (simp_all add: split_space)

text \<open>A run of non-whitespace that ends at whitespace or at the end of the string is one part.\<close>

lemma split_part:
  assumes "p \<noteq> []" and "\<forall>c\<in>set p. \<not> sp c" and "s = [] \<or> sp (hd s)"
  shows "split sp (p @ s) = p # split sp s"
proof -
  obtain c cs where p: "p = c # cs" using assms(1) by (cases p) auto
  have tw: "takeWhile (\<lambda>x. \<not> sp x) (cs @ s) = cs"
    using assms(2,3) p by (cases s) auto
  have dw: "dropWhile (\<lambda>x. \<not> sp x) (cs @ s) = s"
    using assms(2,3) p by (cases s) auto
  show ?thesis using p assms(2) by (simp add: split_word tw dw)
qed

lemma split_two_parts:
  assumes p: "p \<noteq> []" "\<forall>c\<in>set p. \<not> sp c"
    and t: "t \<noteq> []" "\<forall>c\<in>set t. \<not> sp c"
    and w: "w1 \<noteq> []" "\<forall>c\<in>set (w0 @ w1 @ w2). sp c"
  shows "split sp (w0 @ p @ w1 @ t @ w2) = [p, t]"
proof -
  have "split sp (w0 @ p @ w1 @ t @ w2) = split sp (p @ (w1 @ t @ w2))"
    using w(2) by (simp add: split_spaces)
  also have "\<dots> = p # split sp (w1 @ t @ w2)"
    using p w by (intro split_part) (cases w1; auto)+
  also have "split sp (w1 @ t @ w2) = split sp (t @ w2)"
    using w(2) by (simp add: split_spaces)
  also have "split sp (t @ w2) = t # split sp w2"
    using t w(2) by (intro split_part) (cases w2; auto)+
  also have "split sp w2 = []"
    using split_spaces [of w2 sp "[]"] w(2) by (simp add: split_Nil)
  finally show ?thesis by simp
qed







section \<open>Properties of \<open>lower\<close>\<close>

lemma of_char_lower_char:
  "(of_char (lower_char c) :: nat) =
     (if (65 \<le> (of_char c :: nat) \<and> (of_char c :: nat) \<le> 90)
        \<or> (192 \<le> (of_char c :: nat) \<and> (of_char c :: nat) \<le> 214)
        \<or> (216 \<le> (of_char c :: nat) \<and> (of_char c :: nat) \<le> 222)
      then of_char c + 32 else of_char c)"
  by (simp add: lower_char_def Let_def)

lemma lower_char_eq_iff:
  assumes "97 \<le> (of_char l :: nat)" and "(of_char l :: nat) \<le> 122"
  shows "lower_char c = l \<longleftrightarrow> c = l \<or> (of_char c :: nat) + 32 = of_char l"
proof -
  have "lower_char c = l \<longleftrightarrow> (of_char (lower_char c) :: nat) = of_char l"
    by (metis char_of_char)
  also have "\<dots> \<longleftrightarrow> (of_char c :: nat) = of_char l \<or> (of_char c :: nat) + 32 = of_char l"
    using assms unfolding of_char_lower_char by auto
  also have "(of_char c :: nat) = of_char l \<longleftrightarrow> c = l"
    by (metis char_of_char)
  finally show ?thesis .
qed

lemma of_char_plus_32:
  "(of_char c :: nat) + 32 = of_char (CHR ''b'') \<longleftrightarrow> c = CHR ''B''"
  "(of_char c :: nat) + 32 = of_char (CHR ''e'') \<longleftrightarrow> c = CHR ''E''"
  "(of_char c :: nat) + 32 = of_char (CHR ''a'') \<longleftrightarrow> c = CHR ''A''"
  "(of_char c :: nat) + 32 = of_char (CHR ''r'') \<longleftrightarrow> c = CHR ''R''"
proof -
  have "(of_char c :: nat) + 32 = of_char (CHR ''b'') \<longleftrightarrow> (of_char c :: nat) = of_char (CHR ''B'')"
    by simp
  then show "(of_char c :: nat) + 32 = of_char (CHR ''b'') \<longleftrightarrow> c = CHR ''B''"
    by (simp only: of_char_eq_iff)
  have "(of_char c :: nat) + 32 = of_char (CHR ''e'') \<longleftrightarrow> (of_char c :: nat) = of_char (CHR ''E'')"
    by simp
  then show "(of_char c :: nat) + 32 = of_char (CHR ''e'') \<longleftrightarrow> c = CHR ''E''"
    by (simp only: of_char_eq_iff)
  have "(of_char c :: nat) + 32 = of_char (CHR ''a'') \<longleftrightarrow> (of_char c :: nat) = of_char (CHR ''A'')"
    by simp
  then show "(of_char c :: nat) + 32 = of_char (CHR ''a'') \<longleftrightarrow> c = CHR ''A''"
    by (simp only: of_char_eq_iff)
  have "(of_char c :: nat) + 32 = of_char (CHR ''r'') \<longleftrightarrow> (of_char c :: nat) = of_char (CHR ''R'')"
    by simp
  then show "(of_char c :: nat) + 32 = of_char (CHR ''r'') \<longleftrightarrow> c = CHR ''R''"
    by (simp only: of_char_eq_iff)
qed

lemma lower_char_letters:
  "lower_char c = CHR ''b'' \<longleftrightarrow> c = CHR ''b'' \<or> c = CHR ''B''"
  "lower_char c = CHR ''e'' \<longleftrightarrow> c = CHR ''e'' \<or> c = CHR ''E''"
  "lower_char c = CHR ''a'' \<longleftrightarrow> c = CHR ''a'' \<or> c = CHR ''A''"
  "lower_char c = CHR ''r'' \<longleftrightarrow> c = CHR ''r'' \<or> c = CHR ''R''"
  using lower_char_eq_iff [of "CHR ''b''" c] lower_char_eq_iff [of "CHR ''e''" c]
    lower_char_eq_iff [of "CHR ''a''" c] lower_char_eq_iff [of "CHR ''r''" c]
  by (simp_all only: of_char_plus_32) simp_all

lemma lower_eq_bearer_iff:
  "lower p = ''bearer'' \<longleftrightarrow>
     (\<exists>c1 c2 c3 c4 c5 c6. p = [c1, c2, c3, c4, c5, c6]
        \<and> (c1 = CHR ''b'' \<or> c1 = CHR ''B'') \<and> (c2 = CHR ''e'' \<or> c2 = CHR ''E'')
        \<and> (c3 = CHR ''a'' \<or> c3 = CHR ''A'') \<and> (c4 = CHR ''r'' \<or> c4 = CHR ''R'')
        \<and> (c5 = CHR ''e'' \<or> c5 = CHR ''E'') \<and> (c6 = CHR ''r'' \<or> c6 = CHR ''R''))"
  (is "?L \<longleftrightarrow> ?R")
proof
  assume ?L
  then have "map lower_char p = [CHR ''b'', CHR ''e'', CHR ''a'', CHR ''r'', CHR ''e'', CHR ''r'']"
    by (simp add: lower_def)
  then obtain c1 c2 c3 c4 c5 c6 where p: "p = [c1, c2, c3, c4, c5, c6]"
    and l: "lower_char c1 = CHR ''b''" "lower_char c2 = CHR ''e''" "lower_char c3 = CHR ''a''"
      "lower_char c4 = CHR ''r''" "lower_char c5 = CHR ''e''" "lower_char c6 = CHR ''r''"
    by (auto simp: map_eq_Cons_conv)
  from l have "(c1 = CHR ''b'' \<or> c1 = CHR ''B'') \<and> (c2 = CHR ''e'' \<or> c2 = CHR ''E'')
        \<and> (c3 = CHR ''a'' \<or> c3 = CHR ''A'') \<and> (c4 = CHR ''r'' \<or> c4 = CHR ''R'')
        \<and> (c5 = CHR ''e'' \<or> c5 = CHR ''E'') \<and> (c6 = CHR ''r'' \<or> c6 = CHR ''R'')"
    by (simp only: lower_char_letters)
  with p show ?R by blast
next
  assume ?R
  then obtain c1 c2 c3 c4 c5 c6 where p: "p = [c1, c2, c3, c4, c5, c6]"
    and m: "(c1 = CHR ''b'' \<or> c1 = CHR ''B'') \<and> (c2 = CHR ''e'' \<or> c2 = CHR ''E'')
        \<and> (c3 = CHR ''a'' \<or> c3 = CHR ''A'') \<and> (c4 = CHR ''r'' \<or> c4 = CHR ''R'')
        \<and> (c5 = CHR ''e'' \<or> c5 = CHR ''E'') \<and> (c6 = CHR ''r'' \<or> c6 = CHR ''R'')"
    by blast
  from m have "lower_char c1 = CHR ''b'' \<and> lower_char c2 = CHR ''e'' \<and> lower_char c3 = CHR ''a''
      \<and> lower_char c4 = CHR ''r'' \<and> lower_char c5 = CHR ''e'' \<and> lower_char c6 = CHR ''r''"
    by (simp only: lower_char_letters)
  then show ?L by (simp add: lower_def p)
qed

text \<open>
  So a part is \<open>bearer\<close> in lower case exactly when it is one of the 64 spellings of the
  word in upper and lower case letters; none of them holds whitespace.
\<close>

lemma lower_bearer_no_space:
  assumes "lower p = ''bearer''"
  shows "p \<noteq> []" and "\<forall>c\<in>set p. \<not> isspace c"
proof -
  from assms obtain c1 c2 c3 c4 c5 c6 where p: "p = [c1, c2, c3, c4, c5, c6]"
    and m: "c1 = CHR ''b'' \<or> c1 = CHR ''B''" "c2 = CHR ''e'' \<or> c2 = CHR ''E''"
      "c3 = CHR ''a'' \<or> c3 = CHR ''A''" "c4 = CHR ''r'' \<or> c4 = CHR ''R''"
      "c5 = CHR ''e'' \<or> c5 = CHR ''E''" "c6 = CHR ''r'' \<or> c6 = CHR ''R''"
    unfolding lower_eq_bearer_iff by blast
  have ns: "\<not> isspace (CHR ''b'')" "\<not> isspace (CHR ''B'')" "\<not> isspace (CHR ''e'')"
    "\<not> isspace (CHR ''E'')" "\<not> isspace (CHR ''a'')" "\<not> isspace (CHR ''A'')"
    "\<not> isspace (CHR ''r'')" "\<not> isspace (CHR ''R'')"
    by (simp_all add: isspace_def unicode_isspace_def)
  show "p \<noteq> []" using p by simp
  have "\<not> isspace c1" using m(1) ns by blast
  moreover have "\<not> isspace c2" using m(2) ns by blast
  moreover have "\<not> isspace c3" using m(3) ns by blast
  moreover have "\<not> isspace c4" using m(4) ns by blast
  moreover have "\<not> isspace c5" using m(5) ns by blast
  moreover have "\<not> isspace c6" using m(6) ns by blast
  ultimately show "\<forall>c\<in>set p. \<not> isspace c" using p by simp
qed

text \<open>The equations that evaluate \<open>split\<close>, \<open>isspace\<close> and \<open>lower\<close> on a literal.\<close>

lemmas string_eval =
  split_Nil split_space split_word isspace_def unicode_isspace_def
  lower_def lower_char_def char_of_def bit_Suc_0_iff

section \<open>Header extraction\<close>

text \<open>
  C3. A header that consists of exactly two whitespace-separated parts, the first of which
  is \<open>bearer\<close> in any mix of upper and lower case, is accepted, and the token returned is
  exactly the second part. The headers in question are those that \<open>split\<close> cuts into two
  parts; they include every header made of any amount of whitespace \<open>w0\<close>, the scheme \<open>p\<close>,
  at least one whitespace character \<open>w1\<close>, a token \<open>t\<close> (not empty, free of whitespace)
  and any amount of whitespace \<open>w2\<close>.
\<close>

theorem bearer_header_yields_token:
  "(split isspace h = [p, t] \<and> lower p = ''bearer'' \<longrightarrow>
      get_token_auth_header (Some h) = Inr t)
   \<and> (lower p = ''bearer'' \<and> t \<noteq> [] \<and> (\<forall>c\<in>set t. \<not> isspace c)
        \<and> w1 \<noteq> [] \<and> (\<forall>c\<in>set (w0 @ w1 @ w2). isspace c) \<longrightarrow>
      split isspace (w0 @ p @ w1 @ t @ w2) = [p, t]
      \<and> get_token_auth_header (Some (w0 @ p @ w1 @ t @ w2)) = Inr t)"
proof (intro conjI impI)
  assume a: "split isspace h = [p, t] \<and> lower p = ''bearer''"
  then have "h \<noteq> []" by (auto simp: split_Nil)
  then show "get_token_auth_header (Some h) = Inr t"
    using a by (simp add: get_token_auth_header_def)
next
  assume a: "lower p = ''bearer'' \<and> t \<noteq> [] \<and> (\<forall>c\<in>set t. \<not> isspace c)
        \<and> w1 \<noteq> [] \<and> (\<forall>c\<in>set (w0 @ w1 @ w2). isspace c)"
  then have l: "lower p = ''bearer''" and t: "t \<noteq> []" "\<forall>c\<in>set t. \<not> isspace c"
    and w: "w1 \<noteq> []" "\<forall>c\<in>set (w0 @ w1 @ w2). isspace c" by simp_all
  have p: "p \<noteq> []" "\<forall>c\<in>set p. \<not> isspace c"
    using l by (rule lower_bearer_no_space)+
  show parts: "split isspace (w0 @ p @ w1 @ t @ w2) = [p, t]"
    using p t w by (rule split_two_parts)
  show "get_token_auth_header (Some (w0 @ p @ w1 @ t @ w2)) = Inr t"
    using parts p(1) l by (simp add: get_token_auth_header_def)
qed

theorem bearer_header_yields_token_witness:
  "get_token_auth_header (Some ''Bearer abc.def.ghi'') = Inr ''abc.def.ghi''
   \<and> split isspace (''  '' @ ''bEaReR'' @ [CHR 0x09, CHR 0xA0] @ ''abc.def.ghi'' @ '' '')
     = [''bEaReR'', ''abc.def.ghi'']
   \<and> get_token_auth_header
       (Some (''  '' @ ''bEaReR'' @ [CHR 0x09, CHR 0xA0] @ ''abc.def.ghi'' @ '' ''))
     = Inr ''abc.def.ghi''"
proof -
  have s: "split isspace ''Bearer abc.def.ghi'' = [''Bearer'', ''abc.def.ghi'']"
    by (simp add: string_eval)
  have l: "lower ''Bearer'' = ''bearer''" by (simp add: string_eval)
  have a: "lower ''bEaReR'' = ''bearer''" by (simp add: string_eval)
  have c: "''abc.def.ghi'' \<noteq> []" by simp
  have d: "\<forall>c\<in>set ''abc.def.ghi''. \<not> isspace c" by (simp add: string_eval)
  have e: "[CHR 0x09, CHR 0xA0] \<noteq> []" by simp
  have f: "\<forall>c\<in>set (''  '' @ [CHR 0x09, CHR 0xA0] @ '' ''). isspace c" by (simp add: string_eval)
  note main = bearer_header_yields_token
  have w1: "get_token_auth_header (Some ''Bearer abc.def.ghi'') = Inr ''abc.def.ghi''"
    using main [THEN conjunct1, rule_format, OF conjI [OF s l]] .
  have w2: "split isspace (''  '' @ ''bEaReR'' @ [CHR 0x09, CHR 0xA0] @ ''abc.def.ghi'' @ '' '')
       = [''bEaReR'', ''abc.def.ghi'']
     \<and> get_token_auth_header
         (Some (''  '' @ ''bEaReR'' @ [CHR 0x09, CHR 0xA0] @ ''abc.def.ghi'' @ '' ''))
       = Inr ''abc.def.ghi''"
    using main [THEN conjunct2, rule_format, of "''bEaReR''" "''abc.def.ghi''"
        "[CHR 0x09, CHR 0xA0]" "''  ''" "'' ''"] a c d e f
    by blast
  from w1 w2 show ?thesis by blast
qed

text \<open>
  C4. For a header that is present, the scheme is checked before the parts are counted. If
  the first whitespace-separated part, in lower case, is not \<open>bearer\<close>, the error is
  \<open>invalid_header\<close> with status 401 and description "Authorization header must start with
  Bearer", however many parts there are. Otherwise, a header of one part gives
  \<open>invalid_header\<close>, 401, "Token not found", and a header of more than two parts gives
  \<open>invalid_header\<close>, 401, "Authorization header must be Bearer token".
\<close>

theorem scheme_check_precedes_part_counts:
  "(split isspace h = p # ps \<and> lower p \<noteq> ''bearer'' \<longrightarrow>
      get_token_auth_header (Some h) =
        Inl (AuthError [(''code'', ''invalid_header''),
                        (''description'', ''Authorization header must start with Bearer'')] 401))
   \<and> (split isspace h = [p] \<and> lower p = ''bearer'' \<longrightarrow>
      get_token_auth_header (Some h) =
        Inl (AuthError [(''code'', ''invalid_header''), (''description'', ''Token not found'')] 401))
   \<and> (split isspace h = p # q # r # rs \<and> lower p = ''bearer'' \<longrightarrow>
      get_token_auth_header (Some h) =
        Inl (AuthError [(''code'', ''invalid_header''),
                        (''description'', ''Authorization header must be Bearer token'')] 401))"
  by (auto simp: get_token_auth_header_def split_Nil)

theorem scheme_check_precedes_part_counts_witness:
  "get_token_auth_header (Some ''Basic xyz and more'') =
     Inl (AuthError [(''code'', ''invalid_header''),
                     (''description'', ''Authorization header must start with Bearer'')] 401)
   \<and> get_token_auth_header (Some ''BEARER'') =
     Inl (AuthError [(''code'', ''invalid_header''), (''description'', ''Token not found'')] 401)
   \<and> get_token_auth_header (Some ''Bearer abc def ghi'') =
     Inl (AuthError [(''code'', ''invalid_header''),
                     (''description'', ''Authorization header must be Bearer token'')] 401)"
proof -
  have s1: "split isspace ''Basic xyz and more'' = ''Basic'' # [''xyz'', ''and'', ''more'']"
    by (simp add: string_eval)
  have l1: "lower ''Basic'' \<noteq> ''bearer''" by (simp add: string_eval)
  have s2: "split isspace ''BEARER'' = [''BEARER'']" by (simp add: string_eval)
  have l2: "lower ''BEARER'' = ''bearer''" by (simp add: string_eval)
  have s3: "split isspace ''Bearer abc def ghi'' = ''Bearer'' # ''abc'' # ''def'' # [''ghi'']"
    by (simp add: string_eval)
  have l3: "lower ''Bearer'' = ''bearer''" by (simp add: string_eval)
  note parts = scheme_check_precedes_part_counts
  have c1: "get_token_auth_header (Some ''Basic xyz and more'') =
     Inl (AuthError [(''code'', ''invalid_header''),
                     (''description'', ''Authorization header must start with Bearer'')] 401)"
    using parts [of "''Basic xyz and more''" "''Basic''" "[''xyz'', ''and'', ''more'']"] s1 l1
    by blast
  have c2: "get_token_auth_header (Some ''BEARER'') =
     Inl (AuthError [(''code'', ''invalid_header''), (''description'', ''Token not found'')] 401)"
    using parts [of "''BEARER''" "''BEARER''" "[]"] s2 l2 by blast
  have c3: "get_token_auth_header (Some ''Bearer abc def ghi'') =
     Inl (AuthError [(''code'', ''invalid_header''),
                     (''description'', ''Authorization header must be Bearer token'')] 401)"
    using parts [of "''Bearer abc def ghi''" "''Bearer''" _ "''abc''" "''def''" "[''ghi'']"] s3 l3
    by blast
  from c1 c2 c3 show ?thesis by blast
qed

text \<open>
  C10. A request whose Authorization header is present but is the empty string is rejected
  with the \<open>authorization_header_missing\<close> error and status 401, exactly as a request
  without the header is; no scheme or part-count error is raised for it.
\<close>

theorem empty_header_is_missing:
  "get_token_auth_header (Some []) =
     Inl (AuthError [(''code'', ''authorization_header_missing''),
                     (''description'', ''Authorization header is expected'')] 401)
   \<and> get_token_auth_header (Some []) = get_token_auth_header None"
  by (simp add: get_token_auth_header_def)

section \<open>Token verification\<close>

text \<open>The key loop reads nothing of the token's header but its \<open>kid\<close>.\<close>

lemma key_loop_kid_only:
  "map_of h' ''kid'' = map_of h ''kid'' \<Longrightarrow> key_loop keys h' rsa_key = key_loop keys h rsa_key"
  by (induction keys arbitrary: rsa_key) (simp_all add: getitem_def split: sum.splits option.splits)

lemma key_loop_no_match:
  assumes "getitem unverified_header ''kid'' = Inr hkid"
    and "\<forall>key\<in>set keys. \<exists>kid. getitem key ''kid'' = Inr kid \<and> kid \<noteq> hkid"
  shows "key_loop keys unverified_header rsa_key = Inr rsa_key"
  using assms by (induction keys arbitrary: rsa_key) auto

lemma example_token: "get_token_auth_header (Some ''Bearer abc.def.ghi'') = Inr ''abc.def.ghi''"
  by (simp add: get_token_auth_header_def string_eval)

text \<open>
  C1. Signature verification is invoked with exactly the fixed one-element list
  \<open>["RS256"]\<close>, whatever the request and the token. First, the run asks the library
  nothing under any other list: two libraries that answer alike whenever the algorithms are
  \<open>["RS256"]\<close> give the same run, however they differ elsewhere. Second, a run that finds
  a key for the token returns what the library answers for that token, that key and
  \<open>["RS256"]\<close> (through the \<open>except\<close> clauses, or through the handler), and the call is
  logged with that list; no logged call carries another list. Third, the token's own header
  has no part in it: replacing the decoded header by any other with the same \<open>kid\<close> (so
  with any other \<open>alg\<close>) changes neither the calls made nor the outcome.
\<close>

theorem decode_called_with_RS256_only:
  "((\<forall>token key audience issuer.
        decode' token key [''RS256''] audience issuer
          = jwt_decode env token key [''RS256''] audience issuer) \<longrightarrow>
      decorated (env\<lparr>jwt_decode := decode'\<rparr>) f = decorated env f)
   \<and> (get_token_auth_header (Authorization env) = Inr token
        \<and> urlopen_json env (''https://'' @ AUTH0_DOMAIN env @ ''/.well-known/jwks.json'') = Inr jwks
        \<and> jwt_get_unverified_header env token = Inr h
        \<and> getitem jwks ''keys'' = Inr keys
        \<and> key_loop keys h [] = Inr rsa_key \<and> rsa_key \<noteq> [] \<longrightarrow>
      decorated env f =
        ([Call_urlopen (''https://'' @ AUTH0_DOMAIN env @ ''/.well-known/jwks.json''),
          Call_get_unverified_header token,
          Call_decode token rsa_key [''RS256''] (API_AUDIENCE env) (AUTH0_DOMAIN env @ ''/'')],
         (case jwt_decode env token rsa_key [''RS256''] (API_AUDIENCE env) (AUTH0_DOMAIN env @ ''/'') of
            Inl ex \<Rightarrow> Inl (except_decode ex)
          | Inr payload \<Rightarrow> f payload)))
   \<and> (\<forall>c\<in>set (fst (decorated env f)). \<forall>token key algorithms audience issuer.
         c = Call_decode token key algorithms audience issuer \<longrightarrow> algorithms = [''RS256''])
   \<and> (get_token_auth_header (Authorization env) = Inr token
        \<and> jwt_get_unverified_header env token = Inr h
        \<and> map_of h' ''kid'' = map_of h ''kid'' \<longrightarrow>
      decorated (env\<lparr>jwt_get_unverified_header := (jwt_get_unverified_header env)(token := Inr h')\<rparr>) f
        = decorated env f)"
proof (intro conjI impI)
  assume same: "\<forall>token key audience issuer.
        decode' token key [''RS256''] audience issuer
          = jwt_decode env token key [''RS256''] audience issuer"
  show "decorated (env\<lparr>jwt_decode := decode'\<rparr>) f = decorated env f"
    by (simp add: decorated_def Let_def ALGORITHMS_def same split: sum.split)
next
  assume "get_token_auth_header (Authorization env) = Inr token
        \<and> urlopen_json env (''https://'' @ AUTH0_DOMAIN env @ ''/.well-known/jwks.json'') = Inr jwks
        \<and> jwt_get_unverified_header env token = Inr h
        \<and> getitem jwks ''keys'' = Inr keys
        \<and> key_loop keys h [] = Inr rsa_key \<and> rsa_key \<noteq> []"
  then show "decorated env f =
        ([Call_urlopen (''https://'' @ AUTH0_DOMAIN env @ ''/.well-known/jwks.json''),
          Call_get_unverified_header token,
          Call_decode token rsa_key [''RS256''] (API_AUDIENCE env) (AUTH0_DOMAIN env @ ''/'')],
         (case jwt_decode env token rsa_key [''RS256''] (API_AUDIENCE env) (AUTH0_DOMAIN env @ ''/'') of
            Inl ex \<Rightarrow> Inl (except_decode ex)
          | Inr payload \<Rightarrow> f payload))"
    by (simp add: decorated_def Let_def ALGORITHMS_def split: sum.split)
next
  show "\<forall>c\<in>set (fst (decorated env f)). \<forall>token key algorithms audience issuer.
       c = Call_decode token key algorithms audience issuer \<longrightarrow> algorithms = [''RS256'']"
    by (simp add: decorated_def Let_def ALGORITHMS_def split: sum.split)
next
  assume a: "get_token_auth_header (Authorization env) = Inr token
        \<and> jwt_get_unverified_header env token = Inr h
        \<and> map_of h' ''kid'' = map_of h ''kid''"
  then have "map_of h' ''kid'' = map_of h ''kid''" by simp
  then have k: "\<And>keys rsa_key. key_loop keys h' rsa_key = key_loop keys h rsa_key"
    by (rule key_loop_kid_only)
  from a have t: "get_token_auth_header (Authorization env) = Inr token"
    and h: "jwt_get_unverified_header env token = Inr h" by simp_all
  show "decorated (env\<lparr>jwt_get_unverified_header := (jwt_get_unverified_header env)(token := Inr h')\<rparr>) f
        = decorated env f"
    using t h by (simp add: decorated_def Let_def k split: sum.split)
qed

text \<open>
  The sample request, with a library that rejects the token under \<open>["RS256"]\<close> and would
  accept it, with a payload of the sender's choosing, under any other list: the run is that
  of a library that rejects the token outright, and ends with \<open>invalid_header\<close>.
\<close>

theorem decode_called_with_RS256_only_witness:
  "decorated
     (example_env\<lparr>jwt_decode := (\<lambda>token key algorithms audience issuer.
        if algorithms = [''RS256''] then Inl JWTError
        else Inr [(''scope'', Str (ustr ''admin''))])\<rparr>)
     (Inr :: claim pydict \<Rightarrow> exn + claim pydict)
   = decorated
       (example_env\<lparr>jwt_decode := (\<lambda>token key algorithms audience issuer. Inl JWTError)\<rparr>) Inr
   \<and> decorated
       (example_env\<lparr>jwt_decode := (\<lambda>token key algorithms audience issuer. Inl JWTError)\<rparr>)
       (Inr :: claim pydict \<Rightarrow> exn + claim pydict)
     = ([Call_urlopen ''https://durian-inc.auth0.com/.well-known/jwks.json'',
         Call_get_unverified_header ''abc.def.ghi'',
         Call_decode ''abc.def.ghi''
           [(''kty'', ''RSA''), (''kid'', ''X''), (''use'', ''sig''), (''n'', ''modulus''), (''e'', ''AQAB'')]
           [''RS256''] ''https://mingle/api'' ''durian-inc.auth0.com/''],
        Inl (AuthError [(''code'', ''invalid_header''),
                        (''description'', ''Unable to parse authentication token.'')] 401))
   \<and> decorated
        (example_env\<lparr>jwt_get_unverified_header :=
           (jwt_get_unverified_header example_env)
             (''abc.def.ghi'' := Inr [(''alg'', ''HS256''), (''kid'', ''X'')])\<rparr>)
        (Inr :: claim pydict \<Rightarrow> exn + claim pydict)
      = decorated example_env Inr"
proof -
  let ?key = "[(''kty'', ''RSA''), (''kid'', ''X''), (''use'', ''sig''),
               (''n'', ''modulus''), (''e'', ''AQAB'')]"
  let ?hdr = "[(''alg'', ''RS256''), (''typ'', ''JWT''), (''kid'', ''X'')]"
  let ?rejecting = "example_env\<lparr>jwt_decode :=
                      (\<lambda>token key algorithms audience issuer. Inl JWTError)\<rparr>"
  let ?confused = "\<lambda>(token :: string) (key :: string pydict) (algorithms :: string list)
                     (audience :: string) (issuer :: string).
                     if algorithms = [''RS256''] then Inl JWTError
                     else Inr [(''scope'', Str (ustr ''admin''))]"
  note main = decode_called_with_RS256_only
  have same: "\<forall>token key audience issuer.
                ?confused token key [''RS256''] audience issuer
                  = jwt_decode ?rejecting token key [''RS256''] audience issuer"
    by simp
  have w1: "decorated (?rejecting\<lparr>jwt_decode := ?confused\<rparr>)
              (Inr :: claim pydict \<Rightarrow> exn + claim pydict) = decorated ?rejecting Inr"
    using main [where decode' = "?confused" and env = "?rejecting"
        and f = "Inr :: claim pydict \<Rightarrow> exn + claim pydict", THEN conjunct1] same
    by simp
  have t: "get_token_auth_header (Authorization ?rejecting) = Inr ''abc.def.ghi''"
    "get_token_auth_header (Authorization example_env) = Inr ''abc.def.ghi''"
    by (simp_all add: example_env_def example_token)
  have u: "urlopen_json ?rejecting
             (''https://'' @ AUTH0_DOMAIN ?rejecting @ ''/.well-known/jwks.json'')
           = Inr [(''keys'', [?key])]"
    by (simp add: example_env_def)
  have h: "jwt_get_unverified_header ?rejecting ''abc.def.ghi'' = Inr ?hdr"
    "jwt_get_unverified_header example_env ''abc.def.ghi'' = Inr ?hdr"
    by (simp_all add: example_env_def)
  have g: "getitem [(''keys'', [?key])] ''keys'' = Inr [?key]"
    by (simp add: getitem_def)
  have l: "key_loop [?key] ?hdr [] = Inr ?key \<and> ?key \<noteq> []"
    by (simp add: getitem_def)
  have k: "map_of [(''alg'', ''HS256''), (''kid'', ''X'')] ''kid'' = map_of ?hdr ''kid''"
    by simp
  have w2: "decorated ?rejecting (Inr :: claim pydict \<Rightarrow> exn + claim pydict)
     = ([Call_urlopen ''https://durian-inc.auth0.com/.well-known/jwks.json'',
         Call_get_unverified_header ''abc.def.ghi'',
         Call_decode ''abc.def.ghi'' ?key [''RS256''] ''https://mingle/api'' ''durian-inc.auth0.com/''],
        Inl (AuthError [(''code'', ''invalid_header''),
                        (''description'', ''Unable to parse authentication token.'')] 401))"
    using main [THEN conjunct2, THEN conjunct1, rule_format,
        OF conjI [OF t(1) conjI [OF u conjI [OF h(1) conjI [OF g l]]]], of Inr]
    by (simp add: example_env_def)
  have w3: "decorated
        (example_env\<lparr>jwt_get_unverified_header :=
           (jwt_get_unverified_header example_env)
             (''abc.def.ghi'' := Inr [(''alg'', ''HS256''), (''kid'', ''X'')])\<rparr>)
        (Inr :: claim pydict \<Rightarrow> exn + claim pydict)
      = decorated example_env Inr"
    using main [THEN conjunct2, THEN conjunct2, THEN conjunct2, rule_format,
        OF conjI [OF t(2) conjI [OF h(2) k]]] .
  from w1 w2 w3 show ?thesis by simp
qed

text \<open>
  C5. When the token's header decodes and its \<open>kid\<close> equals the \<open>kid\<close> of no key of the
  fetched key set, the run ends with the \<open>invalid_header\<close> error, status 401, "Unable to
  find appropriate key", and the only library calls made are the fetch of the key set and
  the decoding of the header: signature verification is not attempted.
\<close>

theorem unknown_kid_rejected_before_decode:
  assumes "get_token_auth_header (Authorization env) = Inr token"
    and "urlopen_json env (''https://'' @ AUTH0_DOMAIN env @ ''/.well-known/jwks.json'') = Inr jwks"
    and "jwt_get_unverified_header env token = Inr unverified_header"
    and "getitem jwks ''keys'' = Inr keys"
    and "getitem unverified_header ''kid'' = Inr hkid"
    and "\<forall>key\<in>set keys. \<exists>kid. getitem key ''kid'' = Inr kid \<and> kid \<noteq> hkid"
  shows "decorated env f =
           ([Call_urlopen (''https://'' @ AUTH0_DOMAIN env @ ''/.well-known/jwks.json''),
             Call_get_unverified_header token],
            Inl (AuthError [(''code'', ''invalid_header''),
                            (''description'', ''Unable to find appropriate key'')] 401))"
proof -
  have "key_loop keys unverified_header [] = Inr []"
    using assms(5,6) by (rule key_loop_no_match)
  then show ?thesis using assms(1-4) by (simp add: decorated_def Let_def)
qed

theorem unknown_kid_rejected_before_decode_witness:
  "decorated
     (example_env\<lparr>jwt_get_unverified_header := (\<lambda>token. Inr [(''alg'', ''RS256''), (''kid'', ''Y'')])\<rparr>)
     (Inr :: claim pydict \<Rightarrow> exn + claim pydict)
   = ([Call_urlopen ''https://durian-inc.auth0.com/.well-known/jwks.json'',
       Call_get_unverified_header ''abc.def.ghi''],
      Inl (AuthError [(''code'', ''invalid_header''),
                      (''description'', ''Unable to find appropriate key'')] 401))"
proof -
  let ?env = "example_env\<lparr>jwt_get_unverified_header :=
                (\<lambda>token. Inr [(''alg'', ''RS256''), (''kid'', ''Y'')])\<rparr>"
  let ?key = "[(''kty'', ''RSA''), (''kid'', ''X''), (''use'', ''sig''),
               (''n'', ''modulus''), (''e'', ''AQAB'')]"
  have a1: "get_token_auth_header (Authorization ?env) = Inr ''abc.def.ghi''"
    by (simp add: example_env_def example_token)
  have a2: "urlopen_json ?env (''https://'' @ AUTH0_DOMAIN ?env @ ''/.well-known/jwks.json'')
              = Inr [(''keys'', [?key])]"
    by (simp add: example_env_def)
  have a3: "jwt_get_unverified_header ?env ''abc.def.ghi'' = Inr [(''alg'', ''RS256''), (''kid'', ''Y'')]"
    by (simp add: example_env_def)
  have a4: "getitem [(''keys'', [?key])] ''keys'' = Inr [?key]"
    by (simp add: getitem_def)
  have a5: "getitem [(''alg'', ''RS256''), (''kid'', ''Y'')] ''kid'' = Inr ''Y''"
    by (simp add: getitem_def)
  have a6: "\<forall>key\<in>set [?key]. \<exists>kid. getitem key ''kid'' = Inr kid \<and> kid \<noteq> ''Y''"
    by (simp add: getitem_def)
  from unknown_kid_rejected_before_decode [OF a1 a2 a3 a4 a5 a6, of Inr]
  show ?thesis by (simp add: example_env_def)
qed

text \<open>
  C7 (as amended). Let the library be the one the specification describes, with its clock
  and its signature verification. When the run reaches signature verification with a matched
  key, the signature verifies under \<open>["RS256"]\<close>, and the expiry claim of the token is
  strictly in the past, the run ends with the \<open>token_expired\<close> error, status 401, "token
  is expired".
\<close>

theorem expired_token_rejected:
  assumes "get_token_auth_header (Authorization env) = Inr token"
    and "urlopen_json env (''https://'' @ AUTH0_DOMAIN env @ ''/.well-known/jwks.json'') = Inr jwks"
    and "jwt_get_unverified_header env token = Inr unverified_header"
    and "getitem jwks ''keys'' = Inr keys"
    and "key_loop keys unverified_header [] = Inr rsa_key"
    and "rsa_key \<noteq> []"
    and "jwt_decode env = spec_jwt_decode now jws_verify"
    and "jws_verify token rsa_key [''RS256''] = Inr claims"
    and "map_of claims ''exp'' = Some (Num exp)"
    and "exp < now"
  shows "snd (decorated env f) =
           Inl (AuthError [(''code'', ''token_expired''), (''description'', ''token is expired'')] 401)"
proof -
  have "expired now claims" using assms(9,10) by (simp add: expired_def)
  then have "jwt_decode env token rsa_key [''RS256''] (API_AUDIENCE env) (AUTH0_DOMAIN env @ ''/'')
               = Inl ExpiredSignatureError"
    using assms(7,8) by (simp add: spec_jwt_decode_def)
  then show ?thesis
    using assms(1-6) by (simp add: decorated_def Let_def ALGORITHMS_def)
qed

theorem expired_token_rejected_witness:
  "snd (decorated
     (example_env\<lparr>jwt_decode := spec_jwt_decode 1000 (\<lambda>token key algorithms.
        if algorithms = [''RS256''] then Inr [(''exp'', Num 999), (''aud'', Str (ustr ''https://mingle/api''))]
        else Inl JWTError)\<rparr>)
     (Inr :: claim pydict \<Rightarrow> exn + claim pydict))
   = Inl (AuthError [(''code'', ''token_expired''), (''description'', ''token is expired'')] 401)"
proof -
  let ?verify = "\<lambda>(token :: string) (key :: string pydict) (algorithms :: string list).
        if algorithms = [''RS256'']
        then Inr [(''exp'', Num 999), (''aud'', Str (ustr ''https://mingle/api''))]
        else Inl JWTError"
  let ?env = "example_env\<lparr>jwt_decode := spec_jwt_decode 1000 ?verify\<rparr>"
  let ?key = "[(''kty'', ''RSA''), (''kid'', ''X''), (''use'', ''sig''),
               (''n'', ''modulus''), (''e'', ''AQAB'')]"
  let ?hdr = "[(''alg'', ''RS256''), (''typ'', ''JWT''), (''kid'', ''X'')]"
  have a1: "get_token_auth_header (Authorization ?env) = Inr ''abc.def.ghi''"
    by (simp add: example_env_def example_token)
  have a2: "urlopen_json ?env (''https://'' @ AUTH0_DOMAIN ?env @ ''/.well-known/jwks.json'')
              = Inr [(''keys'', [?key])]"
    by (simp add: example_env_def)
  have a3: "jwt_get_unverified_header ?env ''abc.def.ghi'' = Inr ?hdr"
    by (simp add: example_env_def)
  have a4: "getitem [(''keys'', [?key])] ''keys'' = Inr [?key]"
    by (simp add: getitem_def)
  have a5: "key_loop [?key] ?hdr [] = Inr ?key"
    by (simp add: getitem_def)
  have a6: "?key \<noteq> []" by simp
  have a7: "jwt_decode ?env = spec_jwt_decode 1000 ?verify" by simp
  have a8: "?verify ''abc.def.ghi'' ?key [''RS256'']
              = Inr [(''exp'', Num 999), (''aud'', Str (ustr ''https://mingle/api''))]"
    by simp
  have a9: "map_of [(''exp'', Num 999), (''aud'', Str (ustr ''https://mingle/api''))] ''exp''
              = Some (Num 999)"
    by simp
  have a10: "(999 :: int) < 1000" by simp
  from expired_token_rejected [OF a1 a2 a3 a4 a5 a6 a7 a8 a9 a10, of Inr]
  show ?thesis .
qed

text \<open>
  C7 as first stated speaks of every token whose expiry is in the past. Two such tokens, at
  time 1000 with expiry 999, that are not rejected as expired: one whose \<open>kid\<close> names no
  published key, which is rejected for the key before the library is asked; and one whose
  signature does not verify, which is rejected as unparseable.
\<close>

theorem expired_token_not_reported_expired:
  "expired 1000 [(''exp'', Num 999)]
   \<and> decorated
       (example_env\<lparr>jwt_get_unverified_header := (\<lambda>token. Inr [(''alg'', ''RS256''), (''kid'', ''Y'')]),
                    jwt_get_unverified_claims := (\<lambda>token. Inr [(''exp'', Num 999)]),
                    jwt_decode := spec_jwt_decode 1000 (\<lambda>token key algorithms. Inr [(''exp'', Num 999)])\<rparr>)
       (Inr :: claim pydict \<Rightarrow> exn + claim pydict)
     = ([Call_urlopen ''https://durian-inc.auth0.com/.well-known/jwks.json'',
         Call_get_unverified_header ''abc.def.ghi''],
        Inl (AuthError [(''code'', ''invalid_header''),
                        (''description'', ''Unable to find appropriate key'')] 401))
   \<and> snd (decorated
       (example_env\<lparr>jwt_get_unverified_claims := (\<lambda>token. Inr [(''exp'', Num 999)]),
                    jwt_decode := spec_jwt_decode 1000 (\<lambda>token key algorithms. Inl JWTError)\<rparr>)
       (Inr :: claim pydict \<Rightarrow> exn + claim pydict))
     = Inl (AuthError [(''code'', ''invalid_header''),
                       (''description'', ''Unable to parse authentication token.'')] 401)"
  by (simp add: decorated_def example_env_def example_token getitem_def expired_def
        spec_jwt_decode_def ALGORITHMS_def)

text \<open>Failures of \<open>jwt.decode\<close> go through the \<open>except\<close> clauses.\<close>

lemma decode_failure_mapped:
  assumes "get_token_auth_header (Authorization env) = Inr token"
    and "urlopen_json env (''https://'' @ AUTH0_DOMAIN env @ ''/.well-known/jwks.json'') = Inr jwks"
    and "jwt_get_unverified_header env token = Inr unverified_header"
    and "getitem jwks ''keys'' = Inr keys"
    and "key_loop keys unverified_header [] = Inr rsa_key"
    and "rsa_key \<noteq> []"
    and "jwt_decode env token rsa_key [''RS256''] (API_AUDIENCE env) (AUTH0_DOMAIN env @ ''/'')
           = Inl ex"
  shows "snd (decorated env f) = Inl (except_decode ex)"
  using assms by (simp add: decorated_def Let_def ALGORITHMS_def)

lemma except_decode_other:
  assumes "ex \<noteq> ExpiredSignatureError" and "ex \<noteq> JWTClaimsError" and "\<forall>name. ex \<noteq> NonException name"
  shows "except_decode ex =
     AuthError [(''code'', ''invalid_header''),
                (''description'', ''Unable to parse authentication token.'')] 401"
  using assms by (cases ex) simp_all

text \<open>
  C6. The library reports an audience or issuer that does not match as \<open>JWTClaimsError\<close>
  (the issuer it is given is \<open>AUTH0_DOMAIN + "/"\<close>). The run then ends with the
  \<open>invalid_claims\<close> error and status 401, but the two adjacent literals of the description
  are joined without a space: the description reads "incorrect claims,please check the
  audience and issuer", not "incorrect claims, please check the audience and issuer".
\<close>

theorem claims_error_description_lacks_space:
  "snd (decorated
     (example_env\<lparr>jwt_decode := (\<lambda>token key algorithms audience issuer. Inl JWTClaimsError)\<rparr>)
     (Inr :: claim pydict \<Rightarrow> exn + claim pydict))
   = Inl (AuthError [(''code'', ''invalid_claims''),
                     (''description'', ''incorrect claims,please check the audience and issuer'')] 401)
   \<and> snd (decorated
     (example_env\<lparr>jwt_decode := (\<lambda>token key algorithms audience issuer. Inl JWTClaimsError)\<rparr>)
     (Inr :: claim pydict \<Rightarrow> exn + claim pydict))
   \<noteq> Inl (AuthError [(''code'', ''invalid_claims''),
                     (''description'', ''incorrect claims, please check the audience and issuer'')] 401)"
  by (simp add: decorated_def example_env_def example_token getitem_def)

text \<open>
  C8. A failure of \<open>jwt.decode\<close> other than the two above is turned into \<open>invalid_header\<close>,
  "Unable to parse authentication token." (lemmas \<open>decode_failure_mapped\<close> and
  \<open>except_decode_other\<close>). The token's header, however, is decoded by
  \<open>jwt.get_unverified_header\<close> outside the \<open>try\<close> block: when that call raises, its
  exception leaves \<open>decorated\<close> as it is, and no \<open>AuthError\<close> is produced.
\<close>

theorem undecodable_header_escapes_as_JWTError:
  "decorated (example_env\<lparr>jwt_get_unverified_header := (\<lambda>token. Inl JWTError)\<rparr>)
     (Inr :: claim pydict \<Rightarrow> exn + claim pydict)
   = ([Call_urlopen ''https://durian-inc.auth0.com/.well-known/jwks.json'',
       Call_get_unverified_header ''abc.def.ghi''],
      Inl JWTError)"
  by (simp add: decorated_def example_env_def example_token)

section \<open>Rejections that are not an \<open>AuthError\<close>\<close>

text \<open>A header of whitespace only is not empty, splits into no part, and \<open>parts[0]\<close> fails.\<close>

lemma whitespace_only_header:
  assumes "h \<noteq> []" and "\<forall>c\<in>set h. isspace c"
  shows "get_token_auth_header (Some h) = Inl IndexError"
proof -
  have "split isspace (h @ []) = split isspace []"
    using assms(2) by (rule split_spaces)
  then have "split isspace h = []" by (simp add: split_Nil)
  then show ?thesis using assms(1) by (simp add: get_token_auth_header_def)
qed

text \<open>
  C2. Not every rejection is an \<open>AuthError\<close>: for the header that is a single blank
  (or a single no-break space), \<open>get_token_auth_header\<close> raises \<open>IndexError\<close>, and so
  does the decorated handler, before any library call. (The exception of \<open>jwt.get_unverified_header\<close> is a second one that
  escapes, see C8.)
\<close>

theorem whitespace_header_escapes_as_IndexError:
  "get_token_auth_header (Some '' '') = Inl IndexError
   \<and> get_token_auth_header (Some [CHR 0xA0]) = Inl IndexError
   \<and> decorated (example_env\<lparr>Authorization := Some '' ''\<rparr>)
         (Inr :: claim pydict \<Rightarrow> exn + claim pydict) = ([], Inl IndexError)"
  by (simp add: decorated_def get_token_auth_header_def string_eval)

section \<open>Scope check\<close>






end
